theory Spec2Isabelle
  imports Complex_Main
begin

section \<open>Temporal experiment summary helper\<close>

text \<open>
  A shallow embedding of \<^verbatim>\<open>src/perplexity/lib/temporal_summary.py\<close>. The module has one
  function, \<^verbatim>\<open>synthesize_temporal_summary\<close>, which maps an \<^verbatim>\<open>ExperimentRecord\<close> to an
  \<^verbatim>\<open>ExperimentSummary\<close>. It reads only its argument.

  Modelling decisions:
  \<^item> \<^verbatim>\<open>ExperimentRecord\<close> is a \<^verbatim>\<open>TypedDict\<close> with \<^verbatim>\<open>total=False\<close>: every key may be absent.
    It is a record of options, \<open>None\<close> for an absent key, with the declared type of each
    value (\<^verbatim>\<open>str\<close> or \<^verbatim>\<open>int\<close>).
  \<^item> Python's \<^verbatim>\<open>int\<close> is \<open>int\<close>; \<^verbatim>\<open>str\<close> is \<open>string\<close>, one list element per character,
    so that \<open>length\<close> is \<^verbatim>\<open>len\<close>. The function measures its strings, tests them for
    emptiness, concatenates and copies them, and never looks at a character.
  \<^item> Python's \<^verbatim>\<open>float\<close> is IEEE 754 binary64. A finite binary64 value is identified with
    the rational number it denotes, and every float operation is the exact rational
    operation followed by rounding to the nearest binary64 value, ties to even
    (\<open>fl\<close> below). All floats of this program lie between 0 and 7, far from overflow, and
    no negative zero, infinity or NaN arises.
  \<^item> The only expressions that can raise on a record of these types are the f-strings:
    the interpreter refuses to turn an \<^verbatim>\<open>int\<close> of too many digits into a \<^verbatim>\<open>str\<close>.
    \<open>synthesize_temporal_summary\<close> is the summary that a call returns when it returns;
    \<open>synthesize_temporal_summary_call\<close> is the call itself, an error or a summary.
\<close>

subsection \<open>Binary64 arithmetic\<close>

text \<open>The number of binary digits of a natural number (\<^verbatim>\<open>int.bit_length\<close>).\<close>

fun bit_length :: "nat \<Rightarrow> nat" where
  "bit_length n = (if n = 0 then 0 else Suc (bit_length (n div 2)))"

declare bit_length.simps [simp del]

text \<open>
  The binary exponent of a positive rational: the integer \<open>e\<close> with
  \<open>2 ^ e \<le> x < 2 ^ (e + 1)\<close> (lemma \<open>binexp_bounds\<close>).
\<close>

definition binexp :: "rat \<Rightarrow> int" where
  "binexp x = (if 1 \<le> x then int (bit_length (nat \<lfloor>x\<rfloor>)) - 1
               else - int (bit_length (nat (\<lceil>1 / x\<rceil> - 1))))"

definition pow2 :: "int \<Rightarrow> rat" where
  "pow2 e = (if 0 \<le> e then 2 ^ nat e else 1 / 2 ^ nat (- e))"

text \<open>Rounding a rational to the nearest integer, a tie going to the even neighbour.\<close>

definition round_half_even :: "rat \<Rightarrow> int" where
  "round_half_even x =
     (let f = \<lfloor>x\<rfloor>; d = x - of_int f
      in if d < 1 / 2 then f else if 1 / 2 < d then f + 1
         else if even f then f else f + 1)"

text \<open>
  Rounding to binary64: a significand of 53 bits, the exponent of the last place not
  below \<open>- 1074\<close> (the subnormal range).
\<close>

definition fl :: "rat \<Rightarrow> rat" where
  "fl x = (if x = 0 then 0
           else let a = \<bar>x\<bar>;
                    e = max (binexp a - 52) (- 1074);
                    m = round_half_even (a / pow2 e)
                in sgn x * of_int m * pow2 e)"

definition fadd :: "rat \<Rightarrow> rat \<Rightarrow> rat" where
  "fadd x y = fl (x + y)"

definition fmul :: "rat \<Rightarrow> rat \<Rightarrow> rat" where
  "fmul x y = fl (x * y)"

definition fdiv :: "rat \<Rightarrow> rat \<Rightarrow> rat" where
  "fdiv x y = fl (x / y)"

text \<open>The conversion of an \<^verbatim>\<open>int\<close> operand of a float operation.\<close>

definition float_of_int :: "int \<Rightarrow> rat" where
  "float_of_int i = fl (of_int i)"

text \<open>
  \<^verbatim>\<open>round(x, ndigits)\<close> on a float: the exact value of \<open>x\<close> is rounded to \<open>ndigits\<close>
  decimal places, ties to even, and the decimal result is converted back to the nearest
  float.
\<close>

definition py_round :: "rat \<Rightarrow> nat \<Rightarrow> rat" where
  "py_round x ndigits = fl (of_int (round_half_even (x * 10 ^ ndigits)) / 10 ^ ndigits)"

subsection \<open>Formatting integers\<close>

definition digit_char :: "nat \<Rightarrow> char" where
  "digit_char d = ''0123456789'' ! d"

fun str_nat :: "nat \<Rightarrow> string" where
  "str_nat n = (if n < 10 then [digit_char n]
                else str_nat (n div 10) @ [digit_char (n mod 10)])"

declare str_nat.simps [simp del]

text \<open>
  The decimal text of an integer: what \<^verbatim>\<open>f"{i}"\<close> interpolates for an \<^verbatim>\<open>int\<close> when the
  conversion succeeds. Whether it succeeds is \<open>format_int\<close> below.
\<close>

definition str_int :: "int \<Rightarrow> string" where
  "str_int i = (if i < 0 then ''-'' @ str_nat (nat (- i)) else str_nat (nat i))"

subsection \<open>The data model\<close>

text \<open>
  The input. The key \<^verbatim>\<open>notes\<close> is the field \<open>notes'\<close>: \<open>notes\<close> is a reserved word
  of Isabelle.
\<close>

record ExperimentRecord =
  past_state :: "string option"
  future_constraint :: "string option"
  final_state :: "string option"
  seed :: "int option"
  iterations :: "int option"
  notes' :: "string option"

text \<open>A value of the \<^verbatim>\<open>dict[str, str | int]\<close> that echoes the input.\<close>

datatype detail = DStr string | DInt int

text \<open>
  \<^verbatim>\<open>experiment_details\<close> is a dictionary built by a literal: an association list in
  the order of the literal, read by \<open>map_of\<close>.
\<close>

record ExperimentSummary =
  consistency_score :: rat
  convergence_notes :: string
  disclaimer :: string
  experiment_details :: "(string \<times> detail) list"

subsection \<open>The function\<close>

text \<open>\<^verbatim>\<open>record.get(key, default)\<close>, applied to the value stored under the key, if any.\<close>

definition dict_get :: "'a option \<Rightarrow> 'a \<Rightarrow> 'a" where
  "dict_get v d = (case v of None \<Rightarrow> d | Some x \<Rightarrow> x)"

text \<open>\<^verbatim>\<open>s or d\<close> on strings: \<open>s\<close> when it is truthy (non-empty), otherwise \<open>d\<close>.\<close>

definition str_or :: "string \<Rightarrow> string \<Rightarrow> string" where
  "str_or s d = (if s \<noteq> [] then s else d)"

text \<open>The float literal \<^verbatim>\<open>0.35\<close>; \<^verbatim>\<open>0.5\<close>, \<^verbatim>\<open>7.0\<close> and \<^verbatim>\<open>0.0\<close> are exact.\<close>

definition lit_0_35 :: rat where
  "lit_0_35 = fl (35 / 100)"

text \<open>Lines 85 to 91: the consistency score of the three extracted strings.\<close>

definition score_of :: "string \<Rightarrow> string \<Rightarrow> string \<Rightarrow> rat" where
  "score_of past future final =
     (if past \<noteq> [] \<and> future \<noteq> [] \<and> final \<noteq> [] then
        let len_sum = int (length past) + int (length future) + int (length final)
        in py_round (fadd (1 / 2) (fmul lit_0_35 (fdiv (float_of_int (len_sum mod 7)) 7))) 2
      else 0)"

text \<open>Lines 94 to 101: the sentence selected by the iteration count.\<close>

definition base_notes :: "int \<Rightarrow> string" where
  "base_notes n =
     (if n = 0 then ''No iterations recorded; unable to assess convergence.''
      else if n < 100 then
        ''Simulation ran for '' @ str_int n
          @ '' iterations. Early termination detected; results may not represent full convergence.''
      else if n < 1000 then
        ''Simulation completed '' @ str_int n
          @ '' iterations with moderate convergence characteristics.''
      else
        ''Simulation completed '' @ str_int n
          @ '' iterations with good convergence behavior. Stable solution reached.'')"

text \<open>Lines 104 and 105: what \<^verbatim>\<open>+=\<close> appends to the sentence.\<close>

definition seed_suffix :: "int \<Rightarrow> string" where
  "seed_suffix s = (if 0 < s then '' (Reproducible with seed='' @ str_int s @ '')'' else [])"

text \<open>Lines 108 to 114.\<close>

definition disclaimer_text :: string where
  "disclaimer_text =
     ''DISCLAIMER: This summary is generated from classical computational inference. ''
     @ ''It does NOT represent physical retrocausality or actual backward time propagation. ''
     @ ''All analysis is performed using standard forward-time simulation with post-hoc ''
     @ ''constraint evaluation. Results should be interpreted as theoretical exploration ''
     @ ''of time-symmetric scenarios, not as evidence of acausal phenomena.''"

definition synthesize_temporal_summary :: "ExperimentRecord \<Rightarrow> ExperimentSummary" where
  "synthesize_temporal_summary record =
     (let past = dict_get (past_state record) [];
          future = dict_get (future_constraint record) [];
          final = dict_get (final_state record) [];
          sd = dict_get (seed record) 0;
          its = dict_get (iterations record) 0;
          nts = dict_get (notes' record) []
      in \<lparr> consistency_score = score_of past future final,
           convergence_notes = base_notes its @ seed_suffix sd,
           disclaimer = disclaimer_text,
           experiment_details =
             [(''past_state'', DStr (str_or past ''(not specified)'')),
              (''future_constraint'', DStr (str_or future ''(not specified)'')),
              (''final_state'', DStr (str_or final ''(not specified)'')),
              (''seed'', DInt sd),
              (''iterations'', DInt its),
              (''notes'', DStr (str_or nts ''(none)''))] \<rparr>)"

subsection \<open>The call, with the conversion that can raise\<close>

text \<open>
  The interpreter bounds the number of digits of an \<^verbatim>\<open>int\<close> that is turned into a \<^verbatim>\<open>str\<close>:
  beyond \<^verbatim>\<open>sys.get_int_max_str_digits()\<close> digits, the sign not counted, the conversion raises
  \<^verbatim>\<open>ValueError\<close>. The limit is 4300 unless the interpreter is configured otherwise, and 0
  stands for no limit. It is not in the source, so it is a parameter here. The f-strings
  of lines 97, 99, 101 and 105 are the only expressions of the function that can raise on
  a record of the declared types.
\<close>

datatype py_error = ValueError

text \<open>\<^verbatim>\<open>f"{i}"\<close> under the limit \<open>max_digits\<close>; \<open>str_int\<close> is the text it produces.\<close>

definition format_int :: "nat \<Rightarrow> int \<Rightarrow> py_error + string" where
  "format_int max_digits i =
     (if 0 < max_digits \<and> max_digits < length (str_nat (nat \<bar>i\<bar>)) then Inl ValueError
      else Inr (str_int i))"

text \<open>Lines 94 to 101, each f-string evaluated in its branch.\<close>

definition base_notes_call :: "nat \<Rightarrow> int \<Rightarrow> py_error + string" where
  "base_notes_call max_digits n =
     (if n = 0 then Inr ''No iterations recorded; unable to assess convergence.''
      else if n < 100 then
        (case format_int max_digits n of
           Inl e \<Rightarrow> Inl e
         | Inr s \<Rightarrow>
             Inr (''Simulation ran for '' @ s
               @ '' iterations. Early termination detected; results may not represent full convergence.''))
      else if n < 1000 then
        (case format_int max_digits n of
           Inl e \<Rightarrow> Inl e
         | Inr s \<Rightarrow>
             Inr (''Simulation completed '' @ s
               @ '' iterations with moderate convergence characteristics.''))
      else
        (case format_int max_digits n of
           Inl e \<Rightarrow> Inl e
         | Inr s \<Rightarrow>
             Inr (''Simulation completed '' @ s
               @ '' iterations with good convergence behavior. Stable solution reached.'')))"

text \<open>Lines 104 and 105.\<close>

definition seed_suffix_call :: "nat \<Rightarrow> int \<Rightarrow> py_error + string" where
  "seed_suffix_call max_digits s =
     (if 0 < s then
        (case format_int max_digits s of
           Inl e \<Rightarrow> Inl e
         | Inr t \<Rightarrow> Inr ('' (Reproducible with seed='' @ t @ '')''))
      else Inr [])"

text \<open>
  The whole call, in the order of the source: the score, the sentence, the suffix, the
  disclaimer, the details. An exception ends it. Where the call returns, it returns
  \<open>synthesize_temporal_summary record\<close> (lemma \<open>synthesize_call_eq\<close>).
\<close>

definition synthesize_temporal_summary_call ::
    "nat \<Rightarrow> ExperimentRecord \<Rightarrow> py_error + ExperimentSummary" where
  "synthesize_temporal_summary_call max_digits record =
     (let past = dict_get (past_state record) [];
          future = dict_get (future_constraint record) [];
          final = dict_get (final_state record) [];
          sd = dict_get (seed record) 0;
          its = dict_get (iterations record) 0;
          nts = dict_get (notes' record) []
      in case base_notes_call max_digits its of
           Inl e \<Rightarrow> Inl e
         | Inr base \<Rightarrow>
             (case seed_suffix_call max_digits sd of
                Inl e \<Rightarrow> Inl e
              | Inr sfx \<Rightarrow>
                  Inr \<lparr> consistency_score = score_of past future final,
                        convergence_notes = base @ sfx,
                        disclaimer = disclaimer_text,
                        experiment_details =
                          [(''past_state'', DStr (str_or past ''(not specified)'')),
                           (''future_constraint'', DStr (str_or future ''(not specified)'')),
                           (''final_state'', DStr (str_or final ''(not specified)'')),
                           (''seed'', DInt sd),
                           (''iterations'', DInt its),
                           (''notes'', DStr (str_or nts ''(none)''))] \<rparr>))"

subsection \<open>The score formula as the specification writes it\<close>

text \<open>
  The specification gives the score as
  \<^verbatim>\<open>round(0.5 + 0.35 * ((len(past_state)+len(future_constraint)+len(final_state)) % 7) / 7.0, 2)\<close>.
  Read as a Python expression, \<^verbatim>\<open>0.35 * r / 7.0\<close> multiplies first and divides second, where
  the source divides first: \<^verbatim>\<open>0.35 * (r / 7.0)\<close>. The two orders round differently
  before \<^verbatim>\<open>round\<close> is applied.
\<close>

definition spec_score :: "string \<Rightarrow> string \<Rightarrow> string \<Rightarrow> rat" where
  "spec_score past future final =
     py_round
       (fadd (1 / 2)
          (fdiv (fmul lit_0_35
                   (float_of_int
                      ((int (length past) + int (length future) + int (length final)) mod 7)))
             7))
       2"

subsection \<open>The records of the demonstration script\<close>

text \<open>\<^verbatim>\<open>examples/temporal_summary_demo.py\<close>, lines 36 to 43 and 61 to 68.\<close>

definition experiment_1 :: ExperimentRecord where
  "experiment_1 =
     \<lparr> past_state = Some ''quantum_system_ground_state'',
       future_constraint = Some ''excited_state_target_energy_5.2eV'',
       final_state = Some ''excited_state_achieved_energy_5.18eV'',
       seed = Some 42,
       iterations = Some 1500,
       notes' = Some ''Standard perturbation analysis with time-symmetric boundary conditions'' \<rparr>"

definition experiment_2 :: ExperimentRecord where
  "experiment_2 =
     \<lparr> past_state = Some ''initial'',
       future_constraint = Some ''target'',
       final_state = Some ''result'',
       seed = Some 123,
       iterations = Some 50,
       notes' = Some ''Quick test run'' \<rparr>"

text \<open>The record of the example in the docstring of the function, lines 62 to 69.\<close>

definition docstring_record :: ExperimentRecord where
  "docstring_record =
     \<lparr> past_state = Some ''initial_configuration_A'',
       future_constraint = Some ''target_state_B'',
       final_state = Some ''achieved_state_B_prime'',
       seed = Some 42,
       iterations = Some 1000,
       notes' = Some ''Test run with standard parameters'' \<rparr>"

text \<open>The empty dictionary: every key absent.\<close>

definition empty_record :: ExperimentRecord where
  "empty_record =
     \<lparr> past_state = None, future_constraint = None, final_state = None,
       seed = None, iterations = None, notes' = None \<rparr>"

section \<open>Properties of binary64 rounding\<close>

lemma bit_length_pos: "0 < n \<Longrightarrow> 0 < bit_length n"
  by (simp add: bit_length.simps [of n])

lemma bit_length_bounds:
  "0 < n \<Longrightarrow> 2 ^ (bit_length n - 1) \<le> n \<and> n < 2 ^ bit_length n"
proof (induction n rule: bit_length.induct)
  case (1 n)
  show ?case
  proof (cases "n div 2 = 0")
    case True
    with 1(2) have n1: "n = 1" by (simp add: div_eq_0_iff)
    have "bit_length 1 = 1"
      by (simp add: bit_length.simps [of "Suc 0"] bit_length.simps [of 0])
    then show ?thesis using n1 by simp
  next
    case False
    then have pos: "0 < n div 2" by simp
    from 1(1) [OF _ pos] 1(2)
    have ih: "2 ^ (bit_length (n div 2) - 1) \<le> n div 2" "n div 2 < 2 ^ bit_length (n div 2)"
      by simp_all
    have bl: "bit_length n = Suc (bit_length (n div 2))"
      using 1(2) by (simp add: bit_length.simps [of n])
    obtain k where k: "bit_length (n div 2) = Suc k"
      using bit_length_pos [OF pos] by (cases "bit_length (n div 2)") simp_all
    from ih k have "2 * 2 ^ k \<le> n" "n < 2 * 2 ^ Suc k" by simp_all
    then show ?thesis by (simp add: bl k)
  qed
qed

lemma bit_length_rat_bounds:
  assumes "0 < n"
  shows "(2::rat) ^ (bit_length n - 1) \<le> of_nat n" "of_nat n + 1 \<le> (2::rat) ^ bit_length n"
proof -
  from bit_length_bounds [OF assms]
  have b: "2 ^ (bit_length n - 1) \<le> n" "Suc n \<le> 2 ^ bit_length n" by simp_all
  from b(1) have "(of_nat (2 ^ (bit_length n - 1)) :: rat) \<le> of_nat n"
    by (simp only: of_nat_le_iff)
  then show "(2::rat) ^ (bit_length n - 1) \<le> of_nat n" by simp
  from b(2) have "(of_nat (Suc n) :: rat) \<le> of_nat (2 ^ bit_length n)"
    by (simp only: of_nat_le_iff)
  then show "of_nat n + 1 \<le> (2::rat) ^ bit_length n" by simp
qed

lemma binexp_bounds:
  assumes "0 < x"
  shows "pow2 (binexp x) \<le> x \<and> x < pow2 (binexp x + 1)"
proof (cases "1 \<le> x")
  case True
  define n where "n = nat \<lfloor>x\<rfloor>"
  have n: "0 < n" using True by (simp add: n_def)
  have e: "binexp x = int (bit_length n) - 1" using True by (simp add: binexp_def n_def)
  have nx: "of_nat n \<le> x" "x < of_nat n + 1"
    using True by (simp_all add: n_def) linarith+
  have "pow2 (binexp x) = 2 ^ (bit_length n - 1)"
    using bit_length_pos [OF n] by (simp add: e pow2_def nat_diff_distrib)
  moreover have "pow2 (binexp x + 1) = 2 ^ bit_length n"
    by (simp add: e pow2_def)
  ultimately show ?thesis using nx bit_length_rat_bounds [OF n] by linarith
next
  case False
  define y where "y = 1 / x"
  define m where "m = nat (\<lceil>y\<rceil> - 1)"
  define k where "k = bit_length m"
  from False assms have y1: "1 < y" by (simp add: y_def)
  then have c2: "2 \<le> \<lceil>y\<rceil>" by linarith
  then have m: "0 < m" by (simp add: m_def)
  have my: "of_nat m < y" "y \<le> of_nat m + 1"
    using c2 by (simp_all add: m_def) linarith+
  have e: "binexp x = - int k" using False by (simp add: binexp_def k_def m_def y_def)
  have kpos: "0 < k" using bit_length_pos [OF m] by (simp add: k_def)
  from bit_length_rat_bounds [OF m] my
  have yb: "2 ^ (k - 1) < y" "y \<le> 2 ^ k" unfolding k_def by linarith+
  have x: "x = 1 / y" using assms by (simp add: y_def)
  have p1: "pow2 (binexp x) = 1 / 2 ^ k"
    using kpos by (simp add: e pow2_def)
  have p2: "pow2 (binexp x + 1) = 1 / 2 ^ (k - 1)"
    using kpos by (simp add: e pow2_def nat_diff_distrib)
  have "1 / 2 ^ k \<le> 1 / y"
    using yb(2) y1 by (simp add: frac_le)
  moreover have "1 / y < 1 / 2 ^ (k - 1)"
    using yb(1) by (simp add: frac_less2)
  ultimately show ?thesis unfolding p1 p2 unfolding x by simp
qed

lemma round_half_even_near: "\<bar>x - of_int (round_half_even x)\<bar> \<le> 1 / 2"
proof -
  have "of_int \<lfloor>x\<rfloor> \<le> x" "x < of_int \<lfloor>x\<rfloor> + 1" by linarith+
  then show ?thesis
    unfolding round_half_even_def Let_def by (simp add: abs_le_iff)
qed

lemma pow2_pos: "0 < pow2 e"
  by (simp add: pow2_def)

lemma pow2_powi: "pow2 e = 2 powi e"
  by (simp add: pow2_def power_int_def field_simps)

lemma pow2_add: "pow2 (a + b) = pow2 a * pow2 b"
  by (simp add: pow2_powi power_int_add)

lemma pow2_nat: "pow2 (int n) = 2 ^ n"
  by (simp add: pow2_def)

text \<open>
  \<open>fl\<close> moves its argument by at most half a unit in the last place, and in the normal
  range the result has a significand of 53 bits.
\<close>

lemma fl_near:
  assumes "x \<noteq> 0"
  shows "\<bar>fl x - x\<bar> \<le> pow2 (max (binexp \<bar>x\<bar> - 52) (- 1074)) / 2"
proof -
  define p where "p = pow2 (max (binexp \<bar>x\<bar> - 52) (- 1074))"
  define m where "m = round_half_even (\<bar>x\<bar> / p)"
  define a where "a = \<bar>x\<bar>"
  have p: "0 < p" by (simp add: p_def pow2_pos)
  have f: "fl x = sgn x * (of_int m * p)"
    using assms by (simp add: fl_def Let_def m_def p_def)
  have x: "x = sgn x * a" by (simp add: a_def sgn_mult_abs)
  have "fl x - x = sgn x * (of_int m * p) - sgn x * a"
    using f x by simp
  also have "\<dots> = sgn x * (of_int m * p - a)"
    by (simp only: right_diff_distrib)
  finally have "\<bar>fl x - x\<bar> = \<bar>of_int m * p - a\<bar>"
    using assms by (simp only: abs_mult abs_sgn_eq) simp
  also have "of_int m * p - a = - (p * (a / p - of_int m))"
    using p by (simp add: right_diff_distrib)
  also have "\<bar>- (p * (a / p - of_int m))\<bar> = p * \<bar>a / p - of_int m\<bar>"
    using p by (simp only: abs_minus_cancel abs_mult)
  also have "\<dots> \<le> p * (1 / 2)"
    using p round_half_even_near [of "a / p"] unfolding m_def a_def
    by (intro mult_left_mono) simp_all
  finally show ?thesis by (simp add: p_def)
qed

lemma fl_significand:
  assumes "x \<noteq> 0" and "- 1022 \<le> binexp \<bar>x\<bar>"
  shows "\<exists>m. fl x = sgn x * of_int m * pow2 (binexp \<bar>x\<bar> - 52) \<and> 2 ^ 52 \<le> m \<and> m \<le> 2 ^ 53"
proof -
  define a where "a = \<bar>x\<bar>"
  define e where "e = binexp a - 52"
  define q where "q = a / pow2 e"
  define m where "m = round_half_even q"
  have a: "0 < a" using assms(1) by (simp add: a_def)
  have emax: "max (binexp a - 52) (- 1074) = e"
    using assms(2) by (simp add: e_def a_def)
  have f: "fl x = sgn x * of_int m * pow2 e"
    using assms(1) emax by (simp add: fl_def Let_def m_def q_def a_def)
  from binexp_bounds [OF a]
  have b: "pow2 (binexp a) \<le> a" "a < pow2 (binexp a + 1)" by simp_all
  have e52: "binexp a = e + int 52" and e53: "binexp a + 1 = e + int 53"
    by (simp_all add: e_def)
  have p52: "pow2 (binexp a) = pow2 e * 2 ^ 52"
    by (subst e52) (simp only: pow2_add pow2_nat)
  have p53: "pow2 (binexp a + 1) = pow2 e * 2 ^ 53"
    by (subst e53) (simp only: pow2_add pow2_nat)
  have aq: "a = pow2 e * q" using pow2_pos [of e] by (simp add: q_def)
  have "pow2 e * 2 ^ 52 \<le> pow2 e * q" "pow2 e * q < pow2 e * 2 ^ 53"
    using b unfolding p52 p53 aq [symmetric] by simp_all
  then have q: "2 ^ 52 \<le> q" "q < 2 ^ 53"
    using pow2_pos [of e] by (simp_all only: mult_le_cancel_left_pos mult_less_cancel_left_pos)
  have near: "\<bar>q - of_int m\<bar> \<le> 1 / 2"
    using round_half_even_near [of q] by (simp add: m_def)
  have "(2 ^ 52 :: rat) - 1 < of_int m" "of_int m < (2 ^ 53 :: rat) + 1"
    using q near by linarith+
  then have "(of_int (2 ^ 52 - 1) :: rat) < of_int m" "(of_int m :: rat) < of_int (2 ^ 53 + 1)"
    by simp_all
  then have "2 ^ 52 - 1 < m" "m < 2 ^ 53 + 1"
    by (simp_all only: of_int_less_iff)
  then have "2 ^ 52 \<le> m \<and> m \<le> 2 ^ 53" by simp
  with f show ?thesis unfolding e_def a_def by blast
qed

text \<open>
  The binary64 values of the literals involved, as \<^verbatim>\<open>float.as_integer_ratio\<close> gives them.
\<close>

lemma binary64_values:
  "lit_0_35 = 3152519739159347 / 9007199254740992"
  "fl (55 / 100) = 2476979795053773 / 4503599627370496"
  "fl (60 / 100) = 5404319552844595 / 9007199254740992"
  "fl (65 / 100) = 5854679515581645 / 9007199254740992"
  "fl (70 / 100) = 3152519739159347 / 4503599627370496"
  "fl (80 / 100) = 3602879701896397 / 4503599627370496"
  "fl (85 / 100) = 7656119366529843 / 9007199254740992"
  "fl (1 / 2) = 1 / 2" "fl (3 / 4) = 3 / 4" "fl 7 = 7"
  by code_simp+

section \<open>The seven values of the score\<close>

lemma residue_cases:
  fixes r :: int
  assumes "0 \<le> r" "r < 7"
  obtains "r = 0" | "r = 1" | "r = 2" | "r = 3" | "r = 4" | "r = 5" | "r = 6"
  using assms by arith

lemma source_formula_values:
  assumes "0 \<le> r" "r < 7"
  shows "py_round (fadd (1 / 2) (fmul lit_0_35 (fdiv (float_of_int r) 7))) 2
           = fl (of_int (50 + 5 * r) / 100)"
  using assms
proof (cases r rule: residue_cases)
  case 1 show ?thesis unfolding 1 by code_simp
next
  case 2 show ?thesis unfolding 2 by code_simp
next
  case 3 show ?thesis unfolding 3 by code_simp
next
  case 4 show ?thesis unfolding 4 by code_simp
next
  case 5 show ?thesis unfolding 5 by code_simp
next
  case 6 show ?thesis unfolding 6 by code_simp
next
  case 7 show ?thesis unfolding 7 by code_simp
qed

lemma spec_formula_values:
  assumes "0 \<le> r" "r < 7"
  shows "py_round (fadd (1 / 2) (fdiv (fmul lit_0_35 (float_of_int r)) 7)) 2
           = fl (of_int (50 + 5 * r) / 100)"
  using assms
proof (cases r rule: residue_cases)
  case 1 show ?thesis unfolding 1 by code_simp
next
  case 2 show ?thesis unfolding 2 by code_simp
next
  case 3 show ?thesis unfolding 3 by code_simp
next
  case 4 show ?thesis unfolding 4 by code_simp
next
  case 5 show ?thesis unfolding 5 by code_simp
next
  case 6 show ?thesis unfolding 6 by code_simp
next
  case 7 show ?thesis unfolding 7 by code_simp
qed

lemma rounded_values_bounds:
  assumes "0 \<le> r" "r < 7"
  shows "1 / 2 \<le> fl (of_int (50 + 5 * r) / 100) \<and> fl (of_int (50 + 5 * r) / 100) < 17 / 20
         \<and>  fl (of_int (50 + 5 * r) / 100) < fl (85 / 100)"
  using assms
proof (cases r rule: residue_cases)
  case 1 show ?thesis unfolding 1 by code_simp
next
  case 2 show ?thesis unfolding 2 by code_simp
next
  case 3 show ?thesis unfolding 3 by code_simp
next
  case 4 show ?thesis unfolding 4 by code_simp
next
  case 5 show ?thesis unfolding 5 by code_simp
next
  case 6 show ?thesis unfolding 6 by code_simp
next
  case 7 show ?thesis unfolding 7 by code_simp
qed

lemma unrounded_differ:
  "fadd (1 / 2) (fmul lit_0_35 (fdiv (float_of_int 3) 7))
     \<noteq> fadd (1 / 2) (fdiv (fmul lit_0_35 (float_of_int 3)) 7)"
  by code_simp

section \<open>The fields of the summary\<close>

lemma score_of_nonempty:
  assumes "past \<noteq> []" "future \<noteq> []" "final \<noteq> []"
  shows "score_of past future final
           = fl (of_int (50 + 5 * ((int (length past) + int (length future) + int (length final)) mod 7)) / 100)"
  using assms source_formula_values [of "(int (length past) + int (length future) + int (length final)) mod 7"]
  by (simp add: score_of_def Let_def)

lemma spec_score_value:
  "spec_score past future final
     = fl (of_int (50 + 5 * ((int (length past) + int (length future) + int (length final)) mod 7)) / 100)"
  using spec_formula_values [of "(int (length past) + int (length future) + int (length final)) mod 7"]
  by (simp add: spec_score_def)

lemma synth_score:
  "consistency_score (synthesize_temporal_summary r)
     = score_of (dict_get (past_state r) []) (dict_get (future_constraint r) [])
         (dict_get (final_state r) [])"
  by (simp add: synthesize_temporal_summary_def Let_def)

lemma synth_notes:
  "convergence_notes (synthesize_temporal_summary r)
     = base_notes (dict_get (iterations r) 0) @ seed_suffix (dict_get (seed r) 0)"
  by (simp add: synthesize_temporal_summary_def Let_def)

lemma synth_disclaimer:
  "disclaimer (synthesize_temporal_summary r) = disclaimer_text"
  by (simp add: synthesize_temporal_summary_def Let_def)

lemma synth_details:
  "experiment_details (synthesize_temporal_summary r) =
     [(''past_state'', DStr (str_or (dict_get (past_state r) []) ''(not specified)'')),
      (''future_constraint'', DStr (str_or (dict_get (future_constraint r) []) ''(not specified)'')),
      (''final_state'', DStr (str_or (dict_get (final_state r) []) ''(not specified)'')),
      (''seed'', DInt (dict_get (seed r) 0)),
      (''iterations'', DInt (dict_get (iterations r) 0)),
      (''notes'', DStr (str_or (dict_get (notes' r) []) ''(none)''))]"
  by (simp add: synthesize_temporal_summary_def Let_def)

text \<open>
  Claim C1. For every record whose \<^verbatim>\<open>past_state\<close>, \<^verbatim>\<open>future_constraint\<close> and
  \<^verbatim>\<open>final_state\<close> are all non-empty strings, the returned \<^verbatim>\<open>consistency_score\<close> is the
  float that the specification's expression
  \<^verbatim>\<open>round(0.5 + 0.35 * (len_sum % 7) / 7.0, 2)\<close> evaluates to, and it is a float nearest to
  a number of two decimal places.
\<close>

theorem score_formula_exact:
  assumes "past_state r = Some past" "future_constraint r = Some future"
    and "final_state r = Some final"
    and "past \<noteq> []" "future \<noteq> []" "final \<noteq> []"
  shows "consistency_score (synthesize_temporal_summary r) = spec_score past future final
         \<and> (\<exists>k::int. consistency_score (synthesize_temporal_summary r) = fl (of_int k / 100))"
proof -
  have "consistency_score (synthesize_temporal_summary r) = score_of past future final"
    using assms(1-3) by (simp add: synth_score dict_get_def)
  then show ?thesis
    using score_of_nonempty [OF assms(4-6)] spec_score_value [of past future final]
    by (simp only:) blast
qed

text \<open>
  The second record of the demonstration script: three non-empty strings of 7, 6 and 6
  characters, remainder 5, score 0.75.
\<close>

theorem score_formula_exact_witness:
  "consistency_score (synthesize_temporal_summary experiment_2)
     = spec_score ''initial'' ''target'' ''result''
   \<and> spec_score ''initial'' ''target'' ''result'' = 3 / 4"
proof -
  have "spec_score ''initial'' ''target'' ''result'' = 3 / 4" by code_simp
  then show ?thesis
    using score_formula_exact [of experiment_2 "''initial''" "''target''" "''result''"]
    by (simp add: experiment_2_def)
qed

text \<open>
  Claim C2. For every record the returned \<^verbatim>\<open>consistency_score\<close> lies between 0.0 and 0.85
  (both as the exact number and as the float literal \<^verbatim>\<open>0.85\<close>), and it is exactly 0.0
  whenever one of \<^verbatim>\<open>past_state\<close>, \<^verbatim>\<open>future_constraint\<close>, \<^verbatim>\<open>final_state\<close> is empty or
  absent.
\<close>

theorem score_bounded:
  "0 \<le> consistency_score (synthesize_temporal_summary r)
   \<and> consistency_score (synthesize_temporal_summary r) \<le> 85 / 100
   \<and> consistency_score (synthesize_temporal_summary r) \<le> fl (85 / 100)
   \<and> (dict_get (past_state r) [] = [] \<or> dict_get (future_constraint r) [] = []
        \<or> dict_get (final_state r) [] = []
      \<longrightarrow> consistency_score (synthesize_temporal_summary r) = 0)"
proof -
  define p where "p = dict_get (past_state r) []"
  define f where "f = dict_get (future_constraint r) []"
  define l where "l = dict_get (final_state r) []"
  have s: "consistency_score (synthesize_temporal_summary r) = score_of p f l"
    by (simp add: synth_score p_def f_def l_def)
  have pos85: "(0::rat) \<le> fl (85 / 100)" by code_simp
  show ?thesis
  proof (cases "p \<noteq> [] \<and> f \<noteq> [] \<and> l \<noteq> []")
    case True
    then have "score_of p f l
        = fl (of_int (50 + 5 * ((int (length p) + int (length f) + int (length l)) mod 7)) / 100)"
      by (simp add: score_of_nonempty)
    with rounded_values_bounds [of "(int (length p) + int (length f) + int (length l)) mod 7"] True
    show ?thesis unfolding s p_def [symmetric] f_def [symmetric] l_def [symmetric]
      by simp
  next
    case False
    then have "score_of p f l = 0" by (auto simp add: score_of_def)
    then show ?thesis unfolding s p_def [symmetric] f_def [symmetric] l_def [symmetric]
      using pos85 by simp
  qed
qed

text \<open>
  The second demonstration record without its \<^verbatim>\<open>final_state\<close> key.
\<close>

theorem score_bounded_witness:
  "consistency_score (synthesize_temporal_summary (experiment_2\<lparr>final_state := None\<rparr>)) = 0"
  using score_bounded [of "experiment_2\<lparr>final_state := None\<rparr>"]
  by (simp add: experiment_2_def dict_get_def)

lemma base_notes_at_boundaries:
  "base_notes 99 = ''Simulation ran for 99 iterations. Early termination detected; results may not represent full convergence.''"
  "base_notes 100 = ''Simulation completed 100 iterations with moderate convergence characteristics.''"
  "base_notes 999 = ''Simulation completed 999 iterations with moderate convergence characteristics.''"
  "base_notes 1000 = ''Simulation completed 1000 iterations with good convergence behavior. Stable solution reached.''"
  by code_simp+

text \<open>
  Claim C3. The base sentence of \<^verbatim>\<open>convergence_notes\<close> (the text before the seed suffix)
  is selected by thresholds on \<^verbatim>\<open>iterations\<close>: 0 gives the no-iterations sentence, a
  count from 1 to 99 the early-termination sentence, from 100 to 999 the
  moderate-convergence sentence, and from 1000 upwards the good-convergence sentence, each
  with the count interpolated; in particular 99, 100, 999 and 1000 fall where the claim
  puts them.
\<close>

theorem convergence_thresholds:
  "let n = dict_get (iterations r) 0;
       sfx = seed_suffix (dict_get (seed r) 0);
       cn = convergence_notes (synthesize_temporal_summary r)
   in (n = 0 \<longrightarrow> cn = ''No iterations recorded; unable to assess convergence.'' @ sfx)
    \<and> (0 < n \<and> n < 100 \<longrightarrow>
         cn = ''Simulation ran for '' @ str_int n
              @ '' iterations. Early termination detected; results may not represent full convergence.''
              @ sfx)
    \<and> (100 \<le> n \<and> n < 1000 \<longrightarrow>
         cn = ''Simulation completed '' @ str_int n
              @ '' iterations with moderate convergence characteristics.'' @ sfx)
    \<and> (1000 \<le> n \<longrightarrow>
         cn = ''Simulation completed '' @ str_int n
              @ '' iterations with good convergence behavior. Stable solution reached.'' @ sfx)
    \<and> (n = 99 \<longrightarrow>
         cn = ''Simulation ran for 99 iterations. Early termination detected; results may not represent full convergence.''
              @ sfx)
    \<and> (n = 100 \<longrightarrow>
         cn = ''Simulation completed 100 iterations with moderate convergence characteristics.'' @ sfx)
    \<and> (n = 999 \<longrightarrow>
         cn = ''Simulation completed 999 iterations with moderate convergence characteristics.'' @ sfx)
    \<and> (n = 1000 \<longrightarrow>
         cn = ''Simulation completed 1000 iterations with good convergence behavior. Stable solution reached.''
              @ sfx)"
  unfolding Let_def synth_notes
  using base_notes_at_boundaries
  by (auto simp add: base_notes_def)

text \<open>
  The thresholds at records that hold nothing but an iteration count.
\<close>

theorem convergence_thresholds_witness:
  "convergence_notes (synthesize_temporal_summary (empty_record\<lparr>iterations := Some 0\<rparr>))
     = ''No iterations recorded; unable to assess convergence.''
   \<and> convergence_notes (synthesize_temporal_summary (empty_record\<lparr>iterations := Some 50\<rparr>))
     = ''Simulation ran for 50 iterations. Early termination detected; results may not represent full convergence.''
   \<and> convergence_notes (synthesize_temporal_summary (empty_record\<lparr>iterations := Some 99\<rparr>))
     = ''Simulation ran for 99 iterations. Early termination detected; results may not represent full convergence.''
   \<and> convergence_notes (synthesize_temporal_summary (empty_record\<lparr>iterations := Some 100\<rparr>))
     = ''Simulation completed 100 iterations with moderate convergence characteristics.''
   \<and> convergence_notes (synthesize_temporal_summary (empty_record\<lparr>iterations := Some 999\<rparr>))
     = ''Simulation completed 999 iterations with moderate convergence characteristics.''
   \<and> convergence_notes (synthesize_temporal_summary (empty_record\<lparr>iterations := Some 1000\<rparr>))
     = ''Simulation completed 1000 iterations with good convergence behavior. Stable solution reached.''"
proof -
  have s50: "str_int 50 = ''50''" "str_int 99 = ''99''" "str_int 100 = ''100''"
    "str_int 999 = ''999''" "str_int 1000 = ''1000''" by code_simp+
  have sfx: "seed_suffix 0 = []" by (simp add: seed_suffix_def)
  note ev = Let_def empty_record_def dict_get_def sfx s50
  have "convergence_notes (synthesize_temporal_summary (empty_record\<lparr>iterations := Some 0\<rparr>))
     = ''No iterations recorded; unable to assess convergence.''"
    using convergence_thresholds [of "empty_record\<lparr>iterations := Some 0\<rparr>"]
    by (simp add: ev)
  moreover
  have "convergence_notes (synthesize_temporal_summary (empty_record\<lparr>iterations := Some 50\<rparr>))
     = ''Simulation ran for 50 iterations. Early termination detected; results may not represent full convergence.''"
    using convergence_thresholds [of "empty_record\<lparr>iterations := Some 50\<rparr>"]
    by (simp add: ev)
  moreover
  have "convergence_notes (synthesize_temporal_summary (empty_record\<lparr>iterations := Some 99\<rparr>))
     = ''Simulation ran for 99 iterations. Early termination detected; results may not represent full convergence.''"
    using convergence_thresholds [of "empty_record\<lparr>iterations := Some 99\<rparr>"]
    by (simp add: ev)
  moreover
  have "convergence_notes (synthesize_temporal_summary (empty_record\<lparr>iterations := Some 100\<rparr>))
     = ''Simulation completed 100 iterations with moderate convergence characteristics.''"
    using convergence_thresholds [of "empty_record\<lparr>iterations := Some 100\<rparr>"]
    by (simp add: ev)
  moreover
  have "convergence_notes (synthesize_temporal_summary (empty_record\<lparr>iterations := Some 999\<rparr>))
     = ''Simulation completed 999 iterations with moderate convergence characteristics.''"
    using convergence_thresholds [of "empty_record\<lparr>iterations := Some 999\<rparr>"]
    by (simp add: ev)
  moreover
  have "convergence_notes (synthesize_temporal_summary (empty_record\<lparr>iterations := Some 1000\<rparr>))
     = ''Simulation completed 1000 iterations with good convergence behavior. Stable solution reached.''"
    using convergence_thresholds [of "empty_record\<lparr>iterations := Some 1000\<rparr>"]
    by (simp add: ev)
  ultimately show ?thesis by (simp only: simp_thms)
qed

text \<open>
  Claim C4. If \<^verbatim>\<open>seed > 0\<close>, \<^verbatim>\<open>convergence_notes\<close> is the base sentence followed by a space
  and \<^verbatim>\<open>(Reproducible with seed={seed})\<close>, one string; if \<^verbatim>\<open>seed <= 0\<close> it is the base
  sentence alone.
\<close>

theorem seed_suffix_appended:
  "let sd = dict_get (seed r) 0;
       base = base_notes (dict_get (iterations r) 0);
       cn = convergence_notes (synthesize_temporal_summary r)
   in (0 < sd \<longrightarrow> cn = base @ '' '' @ ''(Reproducible with seed='' @ str_int sd @ '')'')
    \<and> (sd \<le> 0 \<longrightarrow> cn = base)"
  unfolding Let_def synth_notes by (simp add: seed_suffix_def)

text \<open>
  Seeds 42, 0 and \<open>- 7\<close>.
\<close>

theorem seed_suffix_appended_witness:
  "convergence_notes (synthesize_temporal_summary (empty_record\<lparr>seed := Some 42\<rparr>))
     = ''No iterations recorded; unable to assess convergence. (Reproducible with seed=42)''
   \<and> convergence_notes (synthesize_temporal_summary (empty_record\<lparr>seed := Some 0\<rparr>))
     = ''No iterations recorded; unable to assess convergence.''
   \<and> convergence_notes (synthesize_temporal_summary (empty_record\<lparr>seed := Some (- 7)\<rparr>))
     = ''No iterations recorded; unable to assess convergence.''"
proof -
  have s42: "str_int 42 = ''42''" by code_simp
  show ?thesis
    using seed_suffix_appended [of "empty_record\<lparr>seed := Some 42\<rparr>"]
      seed_suffix_appended [of "empty_record\<lparr>seed := Some 0\<rparr>"]
      seed_suffix_appended [of "empty_record\<lparr>seed := Some (- 7)\<rparr>"]
    by (simp add: Let_def empty_record_def dict_get_def base_notes_def s42)
qed

text \<open>
  Claim C5. In \<^verbatim>\<open>experiment_details\<close>, each of \<^verbatim>\<open>past_state\<close>, \<^verbatim>\<open>future_constraint\<close>,
  \<^verbatim>\<open>final_state\<close> is \<^verbatim>\<open>(not specified)\<close> when its extracted value is empty and the
  extracted value otherwise; \<^verbatim>\<open>notes\<close> is \<^verbatim>\<open>(none)\<close> when empty and the extracted value
  otherwise; \<^verbatim>\<open>seed\<close> and \<^verbatim>\<open>iterations\<close> are the extracted integers, 0 included. The
  dictionary has these six keys and no other.
\<close>

theorem details_placeholders:
  "let p = dict_get (past_state r) [];
       f = dict_get (future_constraint r) [];
       l = dict_get (final_state r) [];
       nts = dict_get (notes' r) [];
       d = map_of (experiment_details (synthesize_temporal_summary r))
   in d ''past_state'' = Some (DStr (if p = [] then ''(not specified)'' else p))
    \<and> d ''future_constraint'' = Some (DStr (if f = [] then ''(not specified)'' else f))
    \<and> d ''final_state'' = Some (DStr (if l = [] then ''(not specified)'' else l))
    \<and> d ''notes'' = Some (DStr (if nts = [] then ''(none)'' else nts))
    \<and> d ''seed'' = Some (DInt (dict_get (seed r) 0))
    \<and> d ''iterations'' = Some (DInt (dict_get (iterations r) 0))
    \<and> map fst (experiment_details (synthesize_temporal_summary r))
        = [''past_state'', ''future_constraint'', ''final_state'', ''seed'', ''iterations'', ''notes'']"
  unfolding Let_def synth_details by (simp add: str_or_def)

text \<open>
  The empty record gets every placeholder and echoes 0 twice; the second demonstration
  record is echoed as it is.
\<close>

theorem details_placeholders_witness:
  "map_of (experiment_details (synthesize_temporal_summary empty_record)) ''past_state''
     = Some (DStr ''(not specified)'')
   \<and> map_of (experiment_details (synthesize_temporal_summary empty_record)) ''notes''
     = Some (DStr ''(none)'')
   \<and> map_of (experiment_details (synthesize_temporal_summary empty_record)) ''seed''
     = Some (DInt 0)
   \<and> map_of (experiment_details (synthesize_temporal_summary empty_record)) ''iterations''
     = Some (DInt 0)
   \<and> map_of (experiment_details (synthesize_temporal_summary experiment_2)) ''past_state''
     = Some (DStr ''initial'')
   \<and> map_of (experiment_details (synthesize_temporal_summary experiment_2)) ''notes''
     = Some (DStr ''Quick test run'')"
  using details_placeholders [of empty_record] details_placeholders [of experiment_2]
  by (simp add: Let_def empty_record_def experiment_2_def dict_get_def)

text \<open>
  Claim C7. The \<^verbatim>\<open>disclaimer\<close> of the summary is the same constant string for every two
  records.
\<close>

theorem disclaimer_constant:
  "disclaimer (synthesize_temporal_summary r1) = disclaimer (synthesize_temporal_summary r2)
   \<and> disclaimer (synthesize_temporal_summary r1) = disclaimer_text"
  by (simp add: synth_disclaimer)

text \<open>
  The first demonstration record and the empty record.
\<close>

theorem disclaimer_constant_witness:
  "disclaimer (synthesize_temporal_summary experiment_1)
     = disclaimer (synthesize_temporal_summary empty_record)"
  using disclaimer_constant [of experiment_1 empty_record] by (simp only:)

text \<open>
  The docstring prints 0.85 for its example record. The strings have 23, 14 and 22
  characters, the remainder is 3, and the function returns 0.65.
\<close>

lemma docstring_example_score:
  "consistency_score (synthesize_temporal_summary docstring_record) = fl (65 / 100)"
  by code_simp

text \<open>
  The first record of the demonstration script. Its three strings have 27, 33 and 36
  characters.
\<close>

lemma example_1_parts:
  "score_of ''quantum_system_ground_state'' ''excited_state_target_energy_5.2eV''
     ''excited_state_achieved_energy_5.18eV'' = 3 / 4"
  "base_notes 1500 = ''Simulation completed 1500 iterations with good convergence behavior. Stable solution reached.''"
  "seed_suffix 42 = '' (Reproducible with seed=42)''"
  by code_simp+

text \<open>
  Claim C8, as the code has it. For \<^verbatim>\<open>past_state="quantum_system_ground_state"\<close>,
  \<^verbatim>\<open>future_constraint="excited_state_target_energy_5.2eV"\<close>,
  \<^verbatim>\<open>final_state="excited_state_achieved_energy_5.18eV"\<close>, \<^verbatim>\<open>seed=42\<close>, \<^verbatim>\<open>iterations=1500\<close>
  the strings have 27, 33 and 36 characters, the sum 96 leaves remainder 5, and the summary
  has \<^verbatim>\<open>consistency_score\<close> 0.75 and the good-convergence sentence for 1500 iterations with
  the suffix for seed 42.
\<close>

theorem example_1_summary:
  "consistency_score (synthesize_temporal_summary (experiment_1\<lparr>notes' := None\<rparr>)) = 3 / 4
   \<and> convergence_notes (synthesize_temporal_summary (experiment_1\<lparr>notes' := None\<rparr>))
     = ''Simulation completed 1500 iterations with good convergence behavior. Stable solution reached. (Reproducible with seed=42)''
   \<and> consistency_score (synthesize_temporal_summary experiment_1) = 3 / 4
   \<and> convergence_notes (synthesize_temporal_summary experiment_1)
     = ''Simulation completed 1500 iterations with good convergence behavior. Stable solution reached. (Reproducible with seed=42)''
   \<and> length ''quantum_system_ground_state'' = 27
   \<and> length ''excited_state_target_energy_5.2eV'' = 33
   \<and> length ''excited_state_achieved_energy_5.18eV'' = 36
   \<and> (27 + 33 + 36) mod 7 = (5::int)"
  by (simp add: synth_score synth_notes experiment_1_def dict_get_def example_1_parts)

text \<open>
  Claim C8, as it is stated (score 0.5 with that sentence), does not hold of this input.
\<close>

theorem example_1_claimed_score_counterexample:
  "\<not> (consistency_score (synthesize_temporal_summary (experiment_1\<lparr>notes' := None\<rparr>)) = 1 / 2
      \<and> convergence_notes (synthesize_temporal_summary (experiment_1\<lparr>notes' := None\<rparr>))
        = ''Simulation completed 1500 iterations with good convergence behavior. Stable solution reached. (Reproducible with seed=42)'')"
  by (simp add: synth_score experiment_1_def dict_get_def example_1_parts)

text \<open>
  Claim C9. For every record and every key, the record without the key and the record
  with the key set to its default (the empty string for \<^verbatim>\<open>past_state\<close>,
  \<^verbatim>\<open>future_constraint\<close>, \<^verbatim>\<open>final_state\<close>, \<^verbatim>\<open>notes\<close>; 0 for \<^verbatim>\<open>seed\<close>, \<^verbatim>\<open>iterations\<close>) get
  the same summary.
\<close>

theorem absent_equals_default:
  "synthesize_temporal_summary (r\<lparr>past_state := None\<rparr>)
     = synthesize_temporal_summary (r\<lparr>past_state := Some []\<rparr>)
   \<and> synthesize_temporal_summary (r\<lparr>future_constraint := None\<rparr>)
     = synthesize_temporal_summary (r\<lparr>future_constraint := Some []\<rparr>)
   \<and> synthesize_temporal_summary (r\<lparr>final_state := None\<rparr>)
     = synthesize_temporal_summary (r\<lparr>final_state := Some []\<rparr>)
   \<and> synthesize_temporal_summary (r\<lparr>notes' := None\<rparr>)
     = synthesize_temporal_summary (r\<lparr>notes' := Some []\<rparr>)
   \<and> synthesize_temporal_summary (r\<lparr>seed := None\<rparr>)
     = synthesize_temporal_summary (r\<lparr>seed := Some 0\<rparr>)
   \<and> synthesize_temporal_summary (r\<lparr>iterations := None\<rparr>)
     = synthesize_temporal_summary (r\<lparr>iterations := Some 0\<rparr>)"
  by (simp add: synthesize_temporal_summary_def Let_def dict_get_def)

text \<open>
  The second demonstration record, for \<^verbatim>\<open>seed\<close> and \<^verbatim>\<open>past_state\<close>.
\<close>

theorem absent_equals_default_witness:
  "synthesize_temporal_summary (experiment_2\<lparr>seed := None\<rparr>)
     = synthesize_temporal_summary (experiment_2\<lparr>seed := Some 0\<rparr>)
   \<and> synthesize_temporal_summary (experiment_2\<lparr>past_state := None\<rparr>)
     = synthesize_temporal_summary (experiment_2\<lparr>past_state := Some []\<rparr>)"
  using absent_equals_default [of experiment_2] by (simp only:)

section \<open>The digit limit of the f-strings\<close>

text \<open>
  The number of digits of \<open>n\<close> exceeds \<open>k\<close> exactly when \<open>n\<close> is at least \<open>10 ^ k\<close>.
\<close>

lemma str_nat_nonempty: "0 < length (str_nat n)"
  by (subst str_nat.simps) simp

lemma digits_lower: "10 ^ k \<le> n \<Longrightarrow> k < length (str_nat n)"
proof (induction k arbitrary: n)
  case 0
  show ?case by (rule str_nat_nonempty)
next
  case (Suc k)
  have "(10::nat) \<le> 10 * 10 ^ k" by simp
  also have "\<dots> \<le> n" using Suc.prems by simp
  finally have n: "\<not> n < 10" by simp
  have "(10 ^ k * 10) div 10 \<le> n div 10"
    using Suc.prems by (intro div_le_mono) (simp add: mult.commute)
  then have d: "10 ^ k \<le> n div 10" by simp
  have "length (str_nat n) = Suc (length (str_nat (n div 10)))"
    using n by (subst str_nat.simps) simp
  with Suc.IH [OF d] show ?case by simp
qed

lemma digits_upper: "0 < k \<Longrightarrow> n < 10 ^ k \<Longrightarrow> length (str_nat n) \<le> k"
proof (induction k arbitrary: n)
  case 0
  then show ?case by simp
next
  case (Suc k)
  show ?case
  proof (cases "n < 10")
    case True
    then show ?thesis by (subst str_nat.simps) simp
  next
    case False
    then have k: "0 < k" using Suc.prems(2) by (cases k) simp_all
    have d: "n div 10 < 10 ^ k" using Suc.prems(2) by (simp add: less_mult_imp_div_less mult.commute)
    have "length (str_nat n) = Suc (length (str_nat (n div 10)))"
      using False by (subst str_nat.simps) simp
    with Suc.IH [OF k d] show ?thesis by simp
  qed
qed

lemma digits_iff: "0 < k \<Longrightarrow> length (str_nat n) \<le> k \<longleftrightarrow> n < 10 ^ k"
  using digits_lower [of k n] digits_upper [of k n] by (auto simp: not_less [symmetric])

text \<open>
  The call raises exactly when an f-string that it evaluates meets an integer beyond the
  limit; otherwise it returns \<open>synthesize_temporal_summary\<close>. Without a limit it always
  returns.
\<close>

lemma base_notes_call_eq:
  "base_notes_call maxd n =
     (if n \<noteq> 0 \<and> 0 < maxd \<and> maxd < length (str_nat (nat \<bar>n\<bar>)) then Inl ValueError
      else Inr (base_notes n))"
  by (simp add: base_notes_call_def base_notes_def format_int_def)

lemma seed_suffix_call_eq:
  "seed_suffix_call maxd s =
     (if 0 < s \<and> 0 < maxd \<and> maxd < length (str_nat (nat \<bar>s\<bar>)) then Inl ValueError
      else Inr (seed_suffix s))"
  by (simp add: seed_suffix_call_def seed_suffix_def format_int_def)

lemma synthesize_call_eq:
  "synthesize_temporal_summary_call maxd r =
     (if (dict_get (iterations r) 0 \<noteq> 0 \<and> 0 < maxd
            \<and> maxd < length (str_nat (nat \<bar>dict_get (iterations r) 0\<bar>)))
         \<or> (0 < dict_get (seed r) 0 \<and> 0 < maxd
            \<and> maxd < length (str_nat (nat \<bar>dict_get (seed r) 0\<bar>)))
      then Inl ValueError
      else Inr (synthesize_temporal_summary r))"
  by (auto simp add: synthesize_temporal_summary_call_def synthesize_temporal_summary_def Let_def
      base_notes_call_eq seed_suffix_call_eq)

lemma synthesize_call_no_limit:
  "synthesize_temporal_summary_call 0 r = Inr (synthesize_temporal_summary r)"
  by (simp add: synthesize_call_eq)

lemma synthesize_call_raises:
  assumes "0 < maxd"
  shows "synthesize_temporal_summary_call maxd (r\<lparr>iterations := Some (- (10 ^ maxd))\<rparr>)
           = Inl ValueError"
proof -
  have "nat ((10::int) ^ maxd) = 10 ^ maxd"
    by (simp add: nat_power_eq)
  then have h: "nat \<bar>- ((10::int) ^ maxd)\<bar> = 10 ^ maxd"
    by simp
  have "maxd < length (str_nat (10 ^ maxd))"
    by (rule digits_lower) simp
  then have "maxd < length (str_nat (nat \<bar>- ((10::int) ^ maxd)\<bar>))"
    by (simp only: h)
  then show ?thesis
    using assms by (simp add: synthesize_call_eq dict_get_def)
qed

text \<open>
  Claim C10, as the code has it. For every record with \<^verbatim>\<open>iterations < 0\<close> whose iteration
  count has no more digits than the interpreter's limit on int-to-str conversion (4300 by
  default, none when the limit is 0), and whose seed, when positive, is within the same
  limit, the call does not fail: it returns the summary whose base sentence is the
  early-termination sentence with the negative count interpolated, minus sign first, and
  whose \<^verbatim>\<open>experiment_details\<close> echo the negative count unchanged.
\<close>

theorem negative_iterations_within_limit:
  assumes "iterations r = Some n" and "n < 0"
    and "maxd = 0 \<or> length (str_nat (nat (- n))) \<le> maxd"
    and "maxd = 0 \<or> dict_get (seed r) 0 \<le> 0
          \<or> length (str_nat (nat (dict_get (seed r) 0))) \<le> maxd"
  shows "synthesize_temporal_summary_call maxd r = Inr (synthesize_temporal_summary r)
         \<and> convergence_notes (synthesize_temporal_summary r)
           = ''Simulation ran for '' @ str_int n
             @ '' iterations. Early termination detected; results may not represent full convergence.''
             @ seed_suffix (dict_get (seed r) 0)
         \<and> str_int n = ''-'' @ str_nat (nat (- n))
         \<and> map_of (experiment_details (synthesize_temporal_summary r)) ''iterations''
           = Some (DInt n)"
proof -
  have "synthesize_temporal_summary_call maxd r = Inr (synthesize_temporal_summary r)"
    using assms by (auto simp add: synthesize_call_eq dict_get_def)
  moreover have "convergence_notes (synthesize_temporal_summary r)
       = ''Simulation ran for '' @ str_int n
         @ '' iterations. Early termination detected; results may not represent full convergence.''
         @ seed_suffix (dict_get (seed r) 0)"
    using assms(1,2) by (simp add: synth_notes dict_get_def base_notes_def)
  moreover have "str_int n = ''-'' @ str_nat (nat (- n))"
    using assms(2) by (simp add: str_int_def)
  moreover have "map_of (experiment_details (synthesize_temporal_summary r)) ''iterations''
       = Some (DInt n)"
    using assms(1) by (simp add: synth_details dict_get_def)
  ultimately show ?thesis by (simp only: simp_thms)
qed

text \<open>
  A count of \<open>- 5\<close> under the default limit of 4300 digits.
\<close>

theorem negative_iterations_within_limit_witness:
  "synthesize_temporal_summary_call 4300 (empty_record\<lparr>iterations := Some (- 5)\<rparr>)
     = Inr (synthesize_temporal_summary (empty_record\<lparr>iterations := Some (- 5)\<rparr>))
   \<and> convergence_notes (synthesize_temporal_summary (empty_record\<lparr>iterations := Some (- 5)\<rparr>))
     = ''Simulation ran for -5 iterations. Early termination detected; results may not represent full convergence.''
   \<and> map_of (experiment_details (synthesize_temporal_summary
        (empty_record\<lparr>iterations := Some (- 5)\<rparr>))) ''iterations'' = Some (DInt (- 5))"
proof -
  have s: "str_nat 5 = ''5''" by code_simp
  show ?thesis
    using negative_iterations_within_limit [of "empty_record\<lparr>iterations := Some (- 5)\<rparr>" "- 5" 4300]
    by (simp add: empty_record_def dict_get_def seed_suffix_def s)
qed

text \<open>
  Claim C10, as it is stated (no failure for every negative count), does not hold: under
  the default limit the count \<open>- (10 ^ 4300)\<close>, of 4301 digits, makes the f-string of line 97
  raise \<^verbatim>\<open>ValueError\<close>.
\<close>

theorem negative_iterations_counterexample:
  "- ((10::int) ^ 4300) < 0
   \<and> synthesize_temporal_summary_call 4300 (empty_record\<lparr>iterations := Some (- (10 ^ 4300))\<rparr>)
       = Inl ValueError"
proof (rule conjI)
  have "(0::int) < 10 ^ 4300" by (rule zero_less_power) simp
  then show "- ((10::int) ^ 4300) < 0" by (simp only: neg_less_0_iff_less)
  show "synthesize_temporal_summary_call 4300 (empty_record\<lparr>iterations := Some (- (10 ^ 4300))\<rparr>)
       = Inl ValueError"
    by (rule synthesize_call_raises) simp
qed

end
